theory Spec2Isabelle
  imports Main
begin

section \<open>Strings and paths\<close>

text \<open>
  The program is \<^verbatim>\<open>FileFinder.py\<close>. Python strings are modelled as HOL strings; a
  character stands for a code point below 256 (ASCII and Latin-1), which is the range on
  which the library functions below are written out. Paths follow the POSIX flavour of
  \<^verbatim>\<open>os.path\<close>.
\<close>

definition NL :: string where
  "NL = [CHR 0x0A]"

definition CRLF :: string where
  "CRLF = [CHR 0x0D, CHR 0x0A]"

text \<open>
  \<^verbatim>\<open>str.lower()\<close> on code points below 256: the capitals \<^verbatim>\<open>A\<close> to \<^verbatim>\<open>Z\<close>
  (65 to 90) and the Latin-1 capitals (192 to 222, without the multiplication sign 215)
  move up by 32. Bit 5 is clear in both ranges, so adding 32 sets it.
\<close>

definition lower_char :: "char \<Rightarrow> char" where
  "lower_char c =
     (let n = (of_char c :: nat)
      in if (65 \<le> n \<and> n \<le> 90) \<or> (192 \<le> n \<and> n \<le> 222 \<and> n \<noteq> 215)
         then (case c of Char b0 b1 b2 b3 b4 b5 b6 b7 \<Rightarrow> Char b0 b1 b2 b3 b4 True b6 b7)
         else c)"

definition lower :: "string \<Rightarrow> string" where
  "lower s = map lower_char s"

text \<open>\<^verbatim>\<open>str.isspace()\<close> on one code point below 256, and \<^verbatim>\<open>str.strip()\<close>.\<close>

definition is_space :: "char \<Rightarrow> bool" where
  "is_space c = ((of_char c :: nat) \<in> {9, 10, 11, 12, 13, 28, 29, 30, 31, 32, 133, 160})"

definition strip :: "string \<Rightarrow> string" where
  "strip s = rev (dropWhile is_space (rev (dropWhile is_space s)))"

definition startswith :: "string \<Rightarrow> char \<Rightarrow> bool" where
  "startswith s c = (case s of [] \<Rightarrow> False | x # _ \<Rightarrow> x = c)"

definition endswith :: "string \<Rightarrow> char \<Rightarrow> bool" where
  "endswith s c = (case rev s of [] \<Rightarrow> False | x # _ \<Rightarrow> x = c)"

text \<open>\<^verbatim>\<open>str.rfind(c)\<close>: the index of the last occurrence of \<open>c\<close>, or \<open>-1\<close>.\<close>

fun find_last :: "char \<Rightarrow> string \<Rightarrow> nat \<Rightarrow> int \<Rightarrow> int" where
  "find_last c [] i found = found"
| "find_last c (x # xs) i found = find_last c xs (Suc i) (if x = c then int i else found)"

definition rfind :: "string \<Rightarrow> char \<Rightarrow> int" where
  "rfind s c = find_last c s 0 (- 1)"

text \<open>
  \<^verbatim>\<open>os.path.splitext\<close> (\<^verbatim>\<open>genericpath._splitext\<close> with separator \<^verbatim>\<open>/\<close>): the
  extension starts at the last dot of the last path component, unless that component
  has only dots before it. The loop over the leading dots is \<open>non_dot_before\<close>.
\<close>

function non_dot_before :: "string \<Rightarrow> nat \<Rightarrow> nat \<Rightarrow> bool" where
  "non_dot_before p filenameIndex dotIndex =
     (if filenameIndex < dotIndex
      then (if p ! filenameIndex \<noteq> CHR ''.'' then True
            else non_dot_before p (Suc filenameIndex) dotIndex)
      else False)"
  by pat_completeness auto
termination
  by (relation "measure (\<lambda>(p, filenameIndex, dotIndex). dotIndex - filenameIndex)") auto

declare non_dot_before.simps [simp del]

definition splitext :: "string \<Rightarrow> string \<times> string" where
  "splitext p =
     (let sepIndex = rfind p CHR ''/'';
          dotIndex = rfind p CHR ''.''
      in if dotIndex > sepIndex \<and> non_dot_before p (nat (sepIndex + 1)) (nat dotIndex)
         then (take (nat dotIndex) p, drop (nat dotIndex) p)
         else (p, []))"

text \<open>\<^verbatim>\<open>os.path.join(a, b)\<close> with two arguments.\<close>

definition path_join :: "string \<Rightarrow> string \<Rightarrow> string" where
  "path_join a b =
     (if startswith b CHR ''/'' then b
      else if a = [] \<or> endswith a CHR ''/'' then a @ b
      else a @ ''/'' @ b)"

section \<open>The scan\<close>

text \<open>
  What the operating system answers. A root that is not a directory has
  \<open>isdir = False\<close>; \<open>walk\<close> is the list of \<open>(root, dirs, files)\<close> triples that
  \<^verbatim>\<open>os.walk\<close> yields; \<open>getsize\<close> is \<open>None\<close> where \<^verbatim>\<open>os.path.getsize\<close> raises
  \<^verbatim>\<open>OSError\<close>. The remaining fields answer the calls made while a report is saved
  and files are deleted.
\<close>

record os_env =
  isdir :: "string \<Rightarrow> bool"
  walk :: "string \<Rightarrow> (string \<times> string list \<times> string list) list"
  getsize :: "string \<Rightarrow> nat option"
  abspath :: "string \<Rightarrow> string"
  path_exists :: "string \<Rightarrow> bool"
  makedirs_ok :: "string \<Rightarrow> bool"
  open_ok :: "string \<Rightarrow> bool"
  remove_ok :: "string \<Rightarrow> bool"

datatype py_error = OSError | ValueError

text \<open>\<^verbatim>\<open>normalize_ext_list\<close>: the loop that fills \<open>norm\<close>, then the function.\<close>

fun normalize_loop :: "string list \<Rightarrow> string list" where
  "normalize_loop [] = []"
| "normalize_loop (ext # exts) =
     (if ext = [] then normalize_loop exts
      else (let e = lower (strip ext)
            in if e = [] then normalize_loop exts
               else (if \<not> startswith e CHR ''.'' then CHR ''.'' # e else e) # normalize_loop exts))"

definition normalize_ext_list :: "string list option \<Rightarrow> string list option" where
  "normalize_ext_list exts =
     (case exts of
        None \<Rightarrow> None
      | Some [] \<Rightarrow> None
      | Some xs \<Rightarrow> (let norm = normalize_loop xs in if norm = [] then None else Some norm))"

text \<open>\<^verbatim>\<open>process_file\<close>: the probe of one candidate.\<close>

definition process_file :: "os_env \<Rightarrow> string \<Rightarrow> int \<Rightarrow> (string \<times> nat) option" where
  "process_file env file_path size_threshold =
     (case getsize env file_path of
        None \<Rightarrow> None
      | Some file_size \<Rightarrow>
          if int file_size > size_threshold then Some (file_path, file_size) else None)"

text \<open>
  Python's truth value of an optional list (\<^verbatim>\<open>None\<close> and \<^verbatim>\<open>[]\<close> are false), and
  the two filter tests of the enumeration loop (lines 83 to 87), include first.
\<close>

definition truthy :: "'a list option \<Rightarrow> bool" where
  "truthy v = (case v of None \<Rightarrow> False | Some xs \<Rightarrow> xs \<noteq> [])"

definition file_ext :: "string \<Rightarrow> string" where
  "file_ext name = lower (snd (splitext name))"

definition passes_filters :: "string list option \<Rightarrow> string list option \<Rightarrow> string \<Rightarrow> bool" where
  "passes_filters include_types exclude_types name =
     (let ext = file_ext name
      in if truthy include_types \<and> ext \<notin> set (the include_types) then False
         else if truthy exclude_types \<and> ext \<in> set (the exclude_types) then False
         else True)"

text \<open>
  The enumeration loop of \<^verbatim>\<open>find_large_files\<close> (lines 77 to 88), with the filter sets
  already normalised, and the same loop without its two filter tests: every file the
  walk enumerates, as \<open>(root, name)\<close>.
\<close>

definition collect_file_paths ::
  "os_env \<Rightarrow> string list \<Rightarrow> string list option \<Rightarrow> string list option \<Rightarrow> string list" where
  "collect_file_paths env directories include_types exclude_types =
     concat (map (\<lambda>directory.
       if \<not> isdir env directory then []
       else concat (map (\<lambda>(root, dirs, files).
              map (path_join root) (filter (passes_filters include_types exclude_types) files))
            (walk env directory)))
     directories)"

definition enumerated_files :: "os_env \<Rightarrow> string list \<Rightarrow> (string \<times> string) list" where
  "enumerated_files env directories =
     concat (map (\<lambda>directory.
       if \<not> isdir env directory then []
       else concat (map (\<lambda>(root, dirs, files). map (\<lambda>name. (root, name)) files)
            (walk env directory)))
     directories)"

text \<open>
  \<^verbatim>\<open>ThreadPoolExecutor(max_workers=workers)\<close> raises \<^verbatim>\<open>ValueError\<close> when
  \<open>workers\<close> is given and not positive; \<^verbatim>\<open>executor.map\<close> yields one result per
  input, in the order of the inputs, whatever the pool size.
\<close>

definition executor_map :: "int option \<Rightarrow> ('a \<Rightarrow> 'b) \<Rightarrow> 'a list \<Rightarrow> py_error + 'b list" where
  "executor_map workers f xs =
     (case workers of
        None \<Rightarrow> Inr (map f xs)
      | Some n \<Rightarrow> if n \<le> 0 then Inl ValueError else Inr (map f xs))"

text \<open>
  \<^verbatim>\<open>list.sort(key=lambda x: x[1], reverse=True)\<close>: CPython reverses the list, sorts
  it stably in ascending key order and reverses it again.
\<close>

definition sort_by_size_reverse :: "(string \<times> nat) list \<Rightarrow> (string \<times> nat) list" where
  "sort_by_size_reverse xs = rev (sort_key snd (rev xs))"

definition candidates ::
  "os_env \<Rightarrow> string list \<Rightarrow> string list option \<Rightarrow> string list option \<Rightarrow> string list" where
  "candidates env directories include_types exclude_types =
     collect_file_paths env directories
       (normalize_ext_list include_types) (normalize_ext_list exclude_types)"

definition find_large_files ::
  "os_env \<Rightarrow> string list \<Rightarrow> int \<Rightarrow> string list option \<Rightarrow> string list option \<Rightarrow> int option
     \<Rightarrow> py_error + (string \<times> nat) list" where
  "find_large_files env directories size_threshold include_types exclude_types workers =
     (let file_paths = candidates env directories include_types exclude_types;
          total_files = length file_paths
      in if total_files = 0 then Inr []
         else (case executor_map workers (\<lambda>fp. process_file env fp size_threshold) file_paths of
                 Inl e \<Rightarrow> Inl e
               | Inr results \<Rightarrow>
                   Inr (sort_by_size_reverse (map the (filter (\<lambda>result. result \<noteq> None) results)))))"

text \<open>
  A file system to run the definitions on. The directory \<^verbatim>\<open>/data\<close> holds files of
  50 MB and 150 MB and one whose size cannot be read; its subdirectory holds files of
  200 MB and 150 MB. Nothing can be made or opened under \<^verbatim>\<open>/ro\<close>, and the file
  \<^verbatim>\<open>notes.txt\<close> cannot be removed.
\<close>

definition data_env :: os_env where
  "data_env = \<lparr>
     isdir = (\<lambda>d. d = ''/data''),
     walk = (\<lambda>d. if d = ''/data''
                  then [(''/data'', [''sub''], [''fileA.bin'', ''fileB.bin'', ''gone.bin'']),
                        (''/data/sub'', [], [''fileC.MP4'', ''notes.txt''])]
                  else []),
     getsize = (\<lambda>p. if p = ''/data/fileA.bin'' then Some 52428800
                     else if p = ''/data/fileB.bin'' then Some 157286400
                     else if p = ''/data/sub/fileC.MP4'' then Some 209715200
                     else if p = ''/data/sub/notes.txt'' then Some 157286400
                     else None),
     abspath = (\<lambda>p. if startswith p CHR ''/'' then p else path_join ''/home/user'' p),
     path_exists = (\<lambda>p. p \<in> {''/'', ''/data'', ''/data/sub'', ''/home/user'', ''/ro''}),
     makedirs_ok = (\<lambda>p. \<not> (take 4 p = ''/ro/'')),
     open_ok = (\<lambda>p. \<not> (take 4 p = ''/ro/'')),
     remove_ok = (\<lambda>p. p \<in> {''/data/fileA.bin'', ''/data/fileB.bin'', ''/data/sub/fileC.MP4''})
   \<rparr>"

section \<open>Rendering\<close>

text \<open>\<^verbatim>\<open>str(n)\<close> of a non-negative integer, and \<^verbatim>\<open>sep.join(xs)\<close>.\<close>

definition digit_char :: "nat \<Rightarrow> char" where
  "digit_char d = ''0123456789abcdef'' ! d"

function str_nat :: "nat \<Rightarrow> string" where
  "str_nat n = (if n < 10 then [digit_char n] else str_nat (n div 10) @ [digit_char (n mod 10)])"
  by pat_completeness auto
termination
  by (relation "measure (\<lambda>n. n)") auto

declare str_nat.simps [simp del]

fun join_str :: "string \<Rightarrow> string list \<Rightarrow> string" where
  "join_str sep [] = []"
| "join_str sep [x] = x"
| "join_str sep (x # y # ys) = x @ sep @ join_str sep (y # ys)"

text \<open>
  \<^verbatim>\<open>float(n)\<close> of a non-negative integer: the nearest double, ties to even. It is
  again an integer, and it is \<open>n\<close> itself below \<open>2^53\<close>. (Python raises
  \<^verbatim>\<open>OverflowError\<close> from about \<open>2^1024\<close> on; a file size is far below that.)
\<close>

function bit_length :: "nat \<Rightarrow> nat" where
  "bit_length n = (if n = 0 then 0 else Suc (bit_length (n div 2)))"
  by pat_completeness auto
termination
  by (relation "measure (\<lambda>n. n)") auto

declare bit_length.simps [simp del]

definition float_of_nat :: "nat \<Rightarrow> nat" where
  "float_of_nat n =
     (if n < 2 ^ 53 then n
      else (let e = bit_length n - 53;
                q = n div 2 ^ e;
                r = n mod 2 ^ e;
                half = 2 ^ (e - 1)
            in (if r > half \<or> (r = half \<and> odd q) then q + 1 else q) * 2 ^ e))"

text \<open>
  \<^verbatim>\<open>f"{x:.2f}"\<close> for the double \<open>x = m / d\<close>, where \<open>d\<close> is a power of two and the
  quotient is exact: the decimal expansion is rounded to two places, ties to even.
\<close>

definition round_half_even :: "nat \<Rightarrow> nat \<Rightarrow> nat" where
  "round_half_even a b =
     (let q = a div b; r = a mod b
      in if 2 * r > b \<or> (2 * r = b \<and> odd q) then q + 1 else q)"

definition fmt_2f :: "nat \<Rightarrow> nat \<Rightarrow> string" where
  "fmt_2f m d =
     (let h = round_half_even (m * 100) d
      in str_nat (h div 100) @ ''.'' @ [digit_char (h mod 100 div 10), digit_char (h mod 10)])"

text \<open>
  \<^verbatim>\<open>format_size\<close>. The loop keeps \<open>size\<close> as the quotient \<open>m / d\<close>; dividing by 1024
  is exact on doubles. The loop always returns at the last unit.
\<close>

definition units :: "string list" where
  "units = [''B'', ''KB'', ''MB'', ''GB'', ''TB'']"

fun format_size_loop :: "nat \<Rightarrow> nat \<Rightarrow> string list \<Rightarrow> string" where
  "format_size_loop m d [] = []"
| "format_size_loop m d (unit # rest) =
     (if m < 1024 * d \<or> unit = last units then fmt_2f m d @ '' '' @ unit
      else format_size_loop m (d * 1024) rest)"

definition format_size :: "nat \<Rightarrow> string" where
  "format_size num_bytes = format_size_loop (float_of_nat num_bytes) 1 units"

text \<open>
  \<^verbatim>\<open>json.dumps(output_data, indent=2)\<close> and \<^verbatim>\<open>json.dump(..., indent=2,
  ensure_ascii=False)\<close> on a list of the three-key records. Both escape the quote, the
  backslash and the control characters; with \<open>ensure_ascii\<close> every code point above
  \<^verbatim>\<open>~\<close> (126) is escaped too.
\<close>

definition DQ :: char where
  "DQ = CHR 0x22"

definition BS :: char where
  "BS = CHR 0x5C"

definition json_escape_char :: "bool \<Rightarrow> char \<Rightarrow> string" where
  "json_escape_char ensure_ascii c =
     (let n = (of_char c :: nat)
      in if c = DQ then [BS, DQ]
         else if c = BS then [BS, BS]
         else if n = 10 then [BS, CHR ''n'']
         else if n = 13 then [BS, CHR ''r'']
         else if n = 9 then [BS, CHR ''t'']
         else if n = 8 then [BS, CHR ''b'']
         else if n = 12 then [BS, CHR ''f'']
         else if n < 32 \<or> (ensure_ascii \<and> 126 < n)
           then [BS, CHR ''u'', CHR ''0'', CHR ''0'', digit_char (n div 16), digit_char (n mod 16)]
         else [c])"

definition json_string :: "bool \<Rightarrow> string \<Rightarrow> string" where
  "json_string ensure_ascii s = DQ # concat (map (json_escape_char ensure_ascii) s) @ [DQ]"

definition json_key :: "string \<Rightarrow> string" where
  "json_key k = DQ # k @ [DQ] @ '': ''"

definition json_record :: "bool \<Rightarrow> string \<times> nat \<Rightarrow> string" where
  "json_record ensure_ascii = (\<lambda>(fp, fs).
     ''{'' @ NL
     @ ''    '' @ json_key ''file_path'' @ json_string ensure_ascii fp @ '','' @ NL
     @ ''    '' @ json_key ''size_bytes'' @ str_nat fs @ '','' @ NL
     @ ''    '' @ json_key ''size_human'' @ json_string ensure_ascii (format_size fs) @ NL
     @ ''  }'')"

definition json_dumps :: "bool \<Rightarrow> (string \<times> nat) list \<Rightarrow> string" where
  "json_dumps ensure_ascii used_files =
     (if used_files = [] then ''[]''
      else ''['' @ NL @ ''  ''
           @ join_str ('','' @ NL @ ''  '') (map (json_record ensure_ascii) used_files)
           @ NL @ '']'')"

text \<open>
  \<^verbatim>\<open>csv.writer(f).writerow(row)\<close> in the default dialect: fields joined by commas,
  a field holding a comma, a quote, a carriage return or a line feed is quoted (quotes
  doubled), and the row ends in CR LF.
\<close>

definition csv_special :: "char \<Rightarrow> bool" where
  "csv_special c = (c = CHR '','' \<or> c = DQ \<or> c = CHR 0x0D \<or> c = CHR 0x0A)"

definition csv_field :: "string \<Rightarrow> string" where
  "csv_field s =
     (if list_ex csv_special s
      then DQ # concat (map (\<lambda>c. if c = DQ then [DQ, DQ] else [c]) s) @ [DQ]
      else s)"

definition csv_writerow :: "string list \<Rightarrow> string" where
  "csv_writerow row = join_str '','' (map csv_field row) @ CRLF"

text \<open>
  What \<^verbatim>\<open>display_large_files\<close> prints (lines 121 to 135) and what it writes to the
  output file (lines 141 to 167). \<open>tab\<close> stands for
  \<^verbatim>\<open>tabulate(table_data, headers=["File Path", "Size"], tablefmt="grid")\<close> of the
  third-party package, which is not part of the repository.
\<close>

definition render_stdout ::
  "((string \<times> string) list \<Rightarrow> string) \<Rightarrow> string \<Rightarrow> (string \<times> nat) list \<Rightarrow> string" where
  "render_stdout tab output_format used_files =
     (if output_format = ''json'' then json_dumps True used_files @ NL
      else if output_format = ''csv''
        then ''file_path,size_bytes,size_human'' @ NL
             @ concat (map (\<lambda>(fp, fs). fp @ '','' @ str_nat fs @ '','' @ format_size fs @ NL) used_files)
      else NL @ ''Large files found:'' @ NL
           @ tab (map (\<lambda>(fp, fs). (fp, format_size fs)) used_files) @ NL)"

definition render_file ::
  "((string \<times> string) list \<Rightarrow> string) \<Rightarrow> string \<Rightarrow> (string \<times> nat) list \<Rightarrow> string" where
  "render_file tab fmt used_files =
     (if fmt = ''json'' then json_dumps False used_files
      else if fmt = ''csv''
        then csv_writerow [''file_path'', ''size_bytes'', ''size_human'']
             @ concat (map (\<lambda>(fp, fs). csv_writerow [fp, str_nat fs, format_size fs]) used_files)
      else tab (map (\<lambda>(fp, fs). (fp, format_size fs)) used_files))"

section \<open>The report and the deletion\<close>

text \<open>
  The effects of the run: the text printed, the log records, the files written, the
  directories made, and the calls of \<^verbatim>\<open>os.remove\<close> with the paths it removed. The log
  records carry the values their messages interpolate. (The records the scan itself
  logs are not part of the model.)
\<close>

datatype log_record =
    Info_NoFilesFound
  | Info_ResultsSaved string
  | Error_FailedToSave string
  | Info_Summary nat string
  | Info_DeletionCancelled
  | Error_FailedToDelete string
  | Info_DeletionComplete nat nat
  | Exception_Unexpected

record world =
  stdout :: string
  logged :: "log_record list"
  written :: "(string \<times> string) list"
  made_dirs :: "string list"
  remove_calls :: "string list"
  removed :: "string list"

text \<open>\<^verbatim>\<open>os.path.dirname\<close> and \<^verbatim>\<open>ensure_parent_dir\<close>.\<close>

definition dirname :: "string \<Rightarrow> string" where
  "dirname p =
     (let i = nat (rfind p CHR ''/'' + 1);
          head = take i p
      in if head \<noteq> [] \<and> head \<noteq> replicate (length head) CHR ''/''
         then rev (dropWhile (\<lambda>c. c = CHR ''/'') (rev head))
         else head)"

definition ensure_parent_dir :: "os_env \<Rightarrow> world \<Rightarrow> string \<Rightarrow> py_error + world" where
  "ensure_parent_dir env w path =
     (let parent = dirname (abspath env path)
      in if parent \<noteq> [] \<and> \<not> path_exists env parent
         then (if makedirs_ok env parent then Inr (w\<lparr>made_dirs := made_dirs w @ [parent]\<rparr>)
               else Inl OSError)
         else Inr w)"

text \<open>
  \<^verbatim>\<open>large_files[:limit] if limit else list(large_files)\<close> (line 119): a limit that is
  \<^verbatim>\<open>None\<close> or \<open>0\<close> is false; a negative limit counts from the end.
\<close>

definition apply_limit :: "'a list \<Rightarrow> int option \<Rightarrow> 'a list" where
  "apply_limit large_files limit =
     (case limit of
        None \<Rightarrow> large_files
      | Some n \<Rightarrow>
          if n = 0 then large_files
          else if 0 < n then take (nat n) large_files
          else take (length large_files - nat (- n)) large_files)"

text \<open>The summary record of lines 172 and 173.\<close>

definition summary :: "(string \<times> nat) list \<Rightarrow> log_record" where
  "summary used_files =
     Info_Summary (length used_files)
       (fmt_2f (float_of_nat (sum_list (map snd used_files))) (1024 * 1024))"

text \<open>
  \<^verbatim>\<open>display_large_files\<close>. The result is the world after the call and either the
  exception that left the function or the list it returned. A failure of
  \<^verbatim>\<open>open\<close> or of the write is caught inside (line 169) and leaves no entry in
  \<open>written\<close>; \<^verbatim>\<open>ensure_parent_dir\<close> is called before the \<^verbatim>\<open>try\<close> (line 138).
  The format is a string; the empty string stands for a missing one.
\<close>

definition display_large_files ::
  "((string \<times> string) list \<Rightarrow> string) \<Rightarrow> os_env \<Rightarrow> world \<Rightarrow> (string \<times> nat) list
     \<Rightarrow> string option \<Rightarrow> int option \<Rightarrow> string \<Rightarrow> world \<times> (py_error + (string \<times> nat) list)" where
  "display_large_files tab env w large_files output_file limit output_format =
     (if large_files = [] then (w\<lparr>logged := logged w @ [Info_NoFilesFound]\<rparr>, Inr [])
      else
        (let used_files = apply_limit large_files limit;
             w1 = w\<lparr>stdout := stdout w @ render_stdout tab output_format used_files\<rparr>
         in if output_file \<noteq> None \<and> output_file \<noteq> Some []
            then (case ensure_parent_dir env w1 (the output_file) of
                    Inl e \<Rightarrow> (w1, Inl e)
                  | Inr w2 \<Rightarrow>
                      (let fmt = lower (if output_format = [] then ''table'' else output_format);
                           w3 = (if open_ok env (the output_file)
                                 then w2\<lparr>written := written w2
                                             @ [(the output_file, render_file tab fmt used_files)],
                                         logged := logged w2 @ [Info_ResultsSaved (the output_file)]\<rparr>
                                 else w2\<lparr>logged := logged w2 @ [Error_FailedToSave (the output_file)]\<rparr>)
                       in (w3\<lparr>logged := logged w3 @ [summary used_files]\<rparr>, Inr used_files)))
            else (w1\<lparr>logged := logged w1 @ [summary used_files]\<rparr>, Inr used_files)))"

text \<open>
  The deletion loop of \<^verbatim>\<open>main\<close> (lines 355 to 362). \<^verbatim>\<open>os.remove\<close> succeeds on a
  path the system lets go and that this run has not removed already.
\<close>

fun delete_loop :: "os_env \<Rightarrow> (string \<times> nat) list \<Rightarrow> nat \<times> nat \<times> world \<Rightarrow> nat \<times> nat \<times> world" where
  "delete_loop env [] (deleted, failed, w) = (deleted, failed, w)"
| "delete_loop env ((file_path, sz) # rest) (deleted, failed, w) =
     (if remove_ok env file_path \<and> file_path \<notin> set (removed w)
      then delete_loop env rest
             (deleted + 1, failed,
              w\<lparr>remove_calls := remove_calls w @ [file_path], removed := removed w @ [file_path]\<rparr>)
      else delete_loop env rest
             (deleted, failed + 1,
              w\<lparr>remove_calls := remove_calls w @ [file_path],
                logged := logged w @ [Error_FailedToDelete file_path]\<rparr>))"

definition run_deletion :: "os_env \<Rightarrow> (string \<times> nat) list \<Rightarrow> world \<Rightarrow> world" where
  "run_deletion env used_files w =
     (case delete_loop env used_files (0, 0, w) of
        (deleted, failed, w') \<Rightarrow> w'\<lparr>logged := logged w' @ [Info_DeletionComplete deleted failed]\<rparr>)"

text \<open>
  The arguments as \<^verbatim>\<open>main\<close> holds them when it enters its \<^verbatim>\<open>try\<close> block (line 334),
  and that block: scan, report, and the deletion when it is asked for and confirmed
  (\<open>answer\<close> is what the user types at the prompt). Any exception ends the block in the
  handler of line 364.
\<close>

record args =
  directories_to_scan :: "string list"
  size_threshold_mb :: int
  include_arg :: "string list option"
  exclude_arg :: "string list option"
  workers_arg :: "int option"
  output_arg :: "string option"
  limit_arg :: "int option"
  format_arg :: string
  delete_arg :: bool
  yes_arg :: bool

definition main_body ::
  "((string \<times> string) list \<Rightarrow> string) \<Rightarrow> os_env \<Rightarrow> args \<Rightarrow> string \<Rightarrow> world \<Rightarrow> world" where
  "main_body tab env a answer w =
     (case find_large_files env (directories_to_scan a) (size_threshold_mb a * 1024 * 1024)
             (include_arg a) (exclude_arg a) (workers_arg a) of
        Inl e \<Rightarrow> w\<lparr>logged := logged w @ [Exception_Unexpected]\<rparr>
      | Inr large_files \<Rightarrow>
          (case display_large_files tab env w large_files (output_arg a) (limit_arg a) (format_arg a) of
             (w1, Inl e) \<Rightarrow> w1\<lparr>logged := logged w1 @ [Exception_Unexpected]\<rparr>
           | (w1, Inr used_files) \<Rightarrow>
               if delete_arg a \<and> used_files \<noteq> []
               then (if \<not> yes_arg a
                     then (let total_bytes = sum_list (map snd used_files);
                               w2 = w1\<lparr>stdout := stdout w1 @ NL @ ''About to delete ''
                                        @ str_nat (length used_files) @ '' files totaling ''
                                        @ format_size total_bytes @ ''.'' @ NL
                                        @ ''Proceed? (y/N): ''\<rparr>;
                               confirm = lower (strip answer)
                           in if confirm \<noteq> ''y'' \<and> confirm \<noteq> ''yes''
                              then w2\<lparr>logged := logged w2 @ [Info_DeletionCancelled]\<rparr>
                              else run_deletion env used_files w2)
                     else run_deletion env used_files w1)
               else w1))"

definition world0 :: world where
  "world0 = \<lparr>stdout = [], logged = [], written = [], made_dirs = [], remove_calls = [], removed = []\<rparr>"

text \<open>A grid of plain rows, in place of the third-party table, to run the definitions.\<close>

definition plain_rows :: "(string \<times> string) list \<Rightarrow> string" where
  "plain_rows rows = join_str NL (map (\<lambda>(a, b). ''| '' @ a @ '' | '' @ b @ '' |'') rows)"



text \<open>
  The filter invariant in the words of the specification: a file passes iff (include
  absent or its extension in include) and (exclude absent or its extension not in
  exclude). The sets are the normalised ones; a set is absent when normalisation
  yields \<open>None\<close>.
\<close>

definition spec_passes :: "string list option \<Rightarrow> string list option \<Rightarrow> string \<Rightarrow> bool" where
  "spec_passes include_set exclude_set ext =
     ((include_set = None \<or> ext \<in> set (the include_set))
      \<and> (exclude_set = None \<or> ext \<notin> set (the exclude_set)))"

section \<open>Evaluation on concrete inputs\<close>

text \<open>
  The facts below run the definitions on \<open>data_env\<close>; the simplifier evaluates them.
\<close>

lemmas str_defs = lower_def lower_char_def is_space_def strip_def startswith_def endswith_def
  rfind_def splitext_def path_join_def file_ext_def non_dot_before.simps

lemmas scan_defs = normalize_ext_list_def process_file_def truthy_def passes_filters_def
  collect_file_paths_def enumerated_files_def executor_map_def sort_by_size_reverse_def
  candidates_def find_large_files_def data_env_def

lemmas fmt_defs = digit_char_def str_nat.simps float_of_nat_def round_half_even_def fmt_2f_def
  units_def format_size_def bit_length.simps

lemmas render_defs = NL_def CRLF_def DQ_def BS_def json_escape_char_def json_string_def
  json_key_def json_record_def json_dumps_def csv_special_def csv_field_def csv_writerow_def
  render_stdout_def render_file_def plain_rows_def

lemma format_size_examples:
  "format_size 0 = ''0.00 B''" "format_size 1023 = ''1023.00 B''"
  "format_size 1024 = ''1.00 KB''" "format_size (1024 * 1024) = ''1.00 MB''"
  by (simp_all add: fmt_defs)

lemma lower_char_adds_32:
  assumes "(65 \<le> (of_char c :: nat) \<and> (of_char c :: nat) \<le> 90)
           \<or> (192 \<le> (of_char c :: nat) \<and> (of_char c :: nat) \<le> 222 \<and> (of_char c :: nat) \<noteq> 215)"
  shows "(of_char (lower_char c) :: nat) = of_char c + 32"
proof (cases c)
  case (Char b0 b1 b2 b3 b4 b5 b6 b7)
  with assms show ?thesis
    by (cases b5; cases b6; cases b7; cases b4; cases b3; cases b2; cases b1; cases b0)
      (simp_all add: lower_char_def)
qed

lemma lower_formats:
  "lower ''table'' = ''table''" "lower ''json'' = ''json''" "lower ''csv'' = ''csv''"
  by (simp_all add: str_defs)

lemma find_large_files_data:
  "find_large_files data_env [''/data''] 104857600 None None None
   = Inr [(''/data/sub/fileC.MP4'', 209715200), (''/data/fileB.bin'', 157286400),
          (''/data/sub/notes.txt'', 157286400)]"
  by (simp add: str_defs scan_defs)

lemma candidates_data:
  "candidates data_env [''/data''] None None
   = [''/data/fileA.bin'', ''/data/fileB.bin'', ''/data/gone.bin'', ''/data/sub/fileC.MP4'',
      ''/data/sub/notes.txt'']"
  by (simp add: str_defs scan_defs)

lemma enumerated_files_data:
  "enumerated_files data_env [''/nope'', ''/data'']
   = [(''/data'', ''fileA.bin''), (''/data'', ''fileB.bin''), (''/data'', ''gone.bin''),
      (''/data/sub'', ''fileC.MP4''), (''/data/sub'', ''notes.txt'')]"
  by (simp add: str_defs scan_defs)

lemma env_facts:
  "open_ok data_env ''out/r.csv''" "\<not> open_ok data_env ''/ro/out.csv''"
  by (simp_all add: data_env_def)



lemma ensure_parent_dir_ro:
  "ensure_parent_dir data_env w ''/ro/reports/out.csv'' = Inl OSError"
  by (simp add: str_defs dirname_def ensure_parent_dir_def data_env_def)

lemma ensure_parent_dir_ro_top:
  "ensure_parent_dir data_env w ''/ro/out.csv'' = Inr w"
  by (simp add: str_defs dirname_def ensure_parent_dir_def data_env_def)










lemma render_stdout_data:
  "render_stdout tab ''csv'' [(''/data/sub/fileC.MP4'', 209715200), (''/data/fileB.bin'', 157286400),
       (''/data/sub/notes.txt'', 157286400)]
   = ''file_path,size_bytes,size_human'' @ NL
     @ ''/data/sub/fileC.MP4,209715200,200.00 MB'' @ NL
     @ ''/data/fileB.bin,157286400,150.00 MB'' @ NL
     @ ''/data/sub/notes.txt,157286400,150.00 MB'' @ NL"
  by (simp add: fmt_defs render_defs)

lemma summary_data:
  "summary [(''/data/sub/fileC.MP4'', 209715200), (''/data/fileB.bin'', 157286400),
       (''/data/sub/notes.txt'', 157286400)] = Info_Summary 3 ''500.00''"
  by (simp add: summary_def fmt_defs)

lemma display_data_makedirs_fails:
  "display_large_files tab data_env world0 [(''/data/sub/fileC.MP4'', 209715200),
       (''/data/fileB.bin'', 157286400), (''/data/sub/notes.txt'', 157286400)]
     (Some ''/ro/reports/out.csv'') None ''csv''
   = (\<lparr>stdout = ''file_path,size_bytes,size_human'' @ NL
         @ ''/data/sub/fileC.MP4,209715200,200.00 MB'' @ NL
         @ ''/data/fileB.bin,157286400,150.00 MB'' @ NL
         @ ''/data/sub/notes.txt,157286400,150.00 MB'' @ NL,
       logged = [], written = [], made_dirs = [], remove_calls = [], removed = []\<rparr>,
      Inl OSError)"
  by (simp add: display_large_files_def apply_limit_def world0_def Let_def
      ensure_parent_dir_ro render_stdout_data)

lemma display_data_open_fails:
  "display_large_files tab data_env world0 [(''/data/sub/fileC.MP4'', 209715200),
       (''/data/fileB.bin'', 157286400), (''/data/sub/notes.txt'', 157286400)]
     (Some ''/ro/out.csv'') None ''csv''
   = (\<lparr>stdout = ''file_path,size_bytes,size_human'' @ NL
         @ ''/data/sub/fileC.MP4,209715200,200.00 MB'' @ NL
         @ ''/data/fileB.bin,157286400,150.00 MB'' @ NL
         @ ''/data/sub/notes.txt,157286400,150.00 MB'' @ NL,
       logged = [Error_FailedToSave ''/ro/out.csv'', Info_Summary 3 ''500.00''],
       written = [], made_dirs = [], remove_calls = [], removed = []\<rparr>,
      Inr [(''/data/sub/fileC.MP4'', 209715200), (''/data/fileB.bin'', 157286400),
           (''/data/sub/notes.txt'', 157286400)])"
  by (simp add: display_large_files_def apply_limit_def world0_def Let_def env_facts
      ensure_parent_dir_ro_top render_stdout_data summary_data lower_formats)



lemma run_deletion_data:
  "run_deletion data_env [(''/data/sub/fileC.MP4'', 209715200), (''/data/fileB.bin'', 157286400),
       (''/data/sub/notes.txt'', 157286400)] w
   = w\<lparr>remove_calls := remove_calls w @ [''/data/sub/fileC.MP4'', ''/data/fileB.bin'',
             ''/data/sub/notes.txt''],
        removed := removed w @ [''/data/sub/fileC.MP4'', ''/data/fileB.bin''],
        logged := logged w @ [Error_FailedToDelete ''/data/sub/notes.txt'',
             Info_DeletionComplete 2 1]\<rparr>"
  if "removed w = []"
  using that by (simp add: run_deletion_def data_env_def)


section \<open>Properties of the scan\<close>

lemma find_large_files_Inr:
  assumes "find_large_files env directories T inc exc workers = Inr r"
  shows "r = sort_by_size_reverse (map the (filter (\<lambda>result. result \<noteq> None)
            (map (\<lambda>fp. process_file env fp T) (candidates env directories inc exc))))"
proof (cases "candidates env directories inc exc = []")
  case True
  with assms show ?thesis
    by (simp add: find_large_files_def sort_by_size_reverse_def)
next
  case False
  with assms show ?thesis
    by (auto simp: find_large_files_def executor_map_def Let_def split: option.splits if_splits)
qed

lemma set_sort_by_size_reverse: "set (sort_by_size_reverse xs) = set xs"
  by (simp add: sort_by_size_reverse_def)

lemma probe_result:
  "e \<in> set (map the (filter (\<lambda>result. result \<noteq> None) (map (\<lambda>fp. process_file env fp T) fps)))
   \<Longrightarrow> T < int (snd e) \<and> getsize env (fst e) = Some (snd e) \<and> fst e \<in> set fps"
  by (auto simp: process_file_def split: option.splits if_splits)

text \<open>
  Claim C1. Whatever the threshold \<open>T\<close> and the answers of the file system, every
  \<open>(path, size)\<close> pair of the list that \<open>find_large_files\<close> returns has
  \<open>size > T\<close>: no entry has a size that is at most \<open>T\<close>, the size equal to \<open>T\<close>
  included. The size is the one the probe read for that path.
\<close>

theorem result_sizes_exceed_threshold:
  assumes "find_large_files env directories T inc exc workers = Inr r"
    and "(p, s) \<in> set r"
  shows "T < int s \<and> \<not> int s \<le> T \<and> getsize env p = Some s"
proof -
  from assms(2) have "(p, s) \<in> set (map the (filter (\<lambda>result. result \<noteq> None)
      (map (\<lambda>fp. process_file env fp T) (candidates env directories inc exc))))"
    unfolding find_large_files_Inr [OF assms(1)] set_sort_by_size_reverse .
  from probe_result [OF this] show ?thesis by simp
qed

theorem result_sizes_exceed_threshold_witness:
  "find_large_files data_env [''/data''] 104857600 None None None
     = Inr [(''/data/sub/fileC.MP4'', 209715200), (''/data/fileB.bin'', 157286400),
            (''/data/sub/notes.txt'', 157286400)]
   \<and> (104857600 :: int) < int 157286400
   \<and> getsize data_env ''/data/fileB.bin'' = Some 157286400"
  using result_sizes_exceed_threshold [OF find_large_files_data, of "''/data/fileB.bin''" 157286400]
    find_large_files_data
  by simp

lemma truthy_normalize_ext_list:
  "truthy (normalize_ext_list exts) \<longleftrightarrow> normalize_ext_list exts \<noteq> None"
  by (auto simp: truthy_def normalize_ext_list_def Let_def split: option.splits list.splits)

lemma passes_filters_normalized:
  "passes_filters (normalize_ext_list inc) (normalize_ext_list exc) name
   \<longleftrightarrow> spec_passes (normalize_ext_list inc) (normalize_ext_list exc) (file_ext name)"
  by (auto simp: passes_filters_def spec_passes_def truthy_normalize_ext_list Let_def)

lemma collect_file_paths_enumerated:
  "collect_file_paths env directories inc exc
   = map (\<lambda>(root, name). path_join root name)
       (filter (\<lambda>(root, name). passes_filters inc exc name) (enumerated_files env directories))"
proof -
  have inner: "map (path_join root) (filter (passes_filters inc exc) files)
      = map (\<lambda>(root, name). path_join root name)
          (filter (\<lambda>(root, name). passes_filters inc exc name) (map (\<lambda>name. (root, name)) files))"
    for root files
    by (induction files) auto
  have walk: "concat (map (\<lambda>(root, dirs, files).
          map (path_join root) (filter (passes_filters inc exc) files)) ws)
      = map (\<lambda>(root, name). path_join root name)
          (filter (\<lambda>(root, name). passes_filters inc exc name)
             (concat (map (\<lambda>(root, dirs, files). map (\<lambda>name. (root, name)) files) ws)))"
    for ws
    by (induction ws) (auto simp: inner)
  show ?thesis
    unfolding collect_file_paths_def enumerated_files_def
    by (induction directories) (auto simp: walk)
qed

text \<open>
  Claim C2. For every include and exclude configuration, the candidates (the paths
  handed to the probe) are exactly the enumerated files, in enumeration order, that
  satisfy the filter invariant: the include set is absent or holds the file's lowercase
  extension, and the exclude set is absent or does not hold it. The sets are the
  normalised ones, and a set is absent when it normalises to \<open>None\<close> (it was not
  given, was empty, or held only blank entries). The source tests include before
  exclude; both tests are pure, so their order does not show in the result.
\<close>

theorem candidate_iff_filters:
  "candidates env directories inc exc
   = map (\<lambda>(root, name). path_join root name)
       (filter (\<lambda>(root, name).
           spec_passes (normalize_ext_list inc) (normalize_ext_list exc) (file_ext name))
         (enumerated_files env directories))"
  by (simp add: candidates_def collect_file_paths_enumerated passes_filters_normalized)

theorem candidate_iff_filters_witness:
  "candidates data_env [''/nope'', ''/data''] (Some ['' MP4'', ''.Bin'', ''txt'']) (Some [''.TXT'', ''''])
   = [''/data/fileA.bin'', ''/data/fileB.bin'', ''/data/gone.bin'', ''/data/sub/fileC.MP4'']"
  using candidate_iff_filters [of data_env "[''/nope'', ''/data'']"
      "Some ['' MP4'', ''.Bin'', ''txt'']" "Some [''.TXT'', '''']"]
  by (simp add: enumerated_files_data spec_passes_def normalize_ext_list_def str_defs)

lemma sorted_sort_by_size_reverse:
  "sorted_wrt (\<lambda>a b. snd b \<le> snd a) (sort_by_size_reverse xs)"
proof -
  have "sorted (map snd (sort_key snd (rev xs)))" by simp
  then have "sorted_wrt (\<lambda>a b. snd a \<le> snd b) (sort_key snd (rev xs))"
    by (simp add: sorted_wrt_map)
  then show ?thesis
    by (simp add: sort_by_size_reverse_def sorted_wrt_rev)
qed

text \<open>
  Claim C3. The list that \<open>find_large_files\<close> returns is sorted by size, largest
  first: for indices \<open>i < j\<close> of the list, the size at \<open>i\<close> is at least the size at
  \<open>j\<close>.
\<close>

theorem result_sorted_descending:
  assumes "find_large_files env directories T inc exc workers = Inr r"
    and "i < j" and "j < length r"
  shows "snd (r ! j) \<le> snd (r ! i)"
  using sorted_sort_by_size_reverse [of "map the (filter (\<lambda>result. result \<noteq> None)
            (map (\<lambda>fp. process_file env fp T) (candidates env directories inc exc)))"]
    assms(2,3)
  unfolding find_large_files_Inr [OF assms(1), symmetric]
  by (simp add: sorted_wrt_iff_nth_less)

theorem result_sorted_descending_witness:
  "find_large_files data_env [''/data''] 104857600 None None None
     = Inr [(''/data/sub/fileC.MP4'', 209715200), (''/data/fileB.bin'', 157286400),
            (''/data/sub/notes.txt'', 157286400)]
   \<and> snd ([(''/data/sub/fileC.MP4'', 209715200 :: nat), (''/data/fileB.bin'', 157286400),
            (''/data/sub/notes.txt'', 157286400)] ! 1) \<le> (209715200 :: nat)"
  using result_sorted_descending [OF find_large_files_data, of 0 1] find_large_files_data
  by simp




lemma stable_sort_by_size_reverse:
  "filter (\<lambda>e. snd e = s) (sort_by_size_reverse xs) = filter (\<lambda>e. snd e = s) xs"
proof -
  have "filter (\<lambda>e. snd e = s) (sort_key snd (rev xs)) = filter (\<lambda>e. snd e = s) (rev xs)"
    by (rule sort_key_stable)
  then show ?thesis
    by (simp add: sort_by_size_reverse_def rev_filter [symmetric])
qed

lemma qualifying_of_size:
  "map fst (filter (\<lambda>e. snd e = s) (map the (filter (\<lambda>result. result \<noteq> None)
      (map (\<lambda>fp. process_file env fp T) fps))))
   = filter (\<lambda>p. getsize env p = Some s \<and> T < int s) fps"
  by (induction fps) (auto simp: process_file_def split: option.splits)

text \<open>
  Claim C10. Entries of equal size stand in the result in candidate order: for every
  size \<open>s\<close>, the paths of the entries of size \<open>s\<close>, read off the result from front to
  back, are the candidates whose probe gave \<open>s\<close> (above the threshold), in the order
  of the candidate list. The pool yields the probe results in input order and the sort
  is stable, so the order among equal sizes is fixed by the enumeration order.
\<close>

theorem equal_sizes_keep_candidate_order:
  assumes "find_large_files env directories T inc exc workers = Inr r"
  shows "map fst (filter (\<lambda>e. snd e = s) r)
         = filter (\<lambda>p. getsize env p = Some s \<and> T < int s) (candidates env directories inc exc)"
  unfolding find_large_files_Inr [OF assms] stable_sort_by_size_reverse qualifying_of_size ..

theorem equal_sizes_keep_candidate_order_witness:
  "map fst (filter (\<lambda>e. snd e = 157286400)
      [(''/data/sub/fileC.MP4'', 209715200 :: nat), (''/data/fileB.bin'', 157286400),
       (''/data/sub/notes.txt'', 157286400)])
   = [''/data/fileB.bin'', ''/data/sub/notes.txt'']
   \<and> filter (\<lambda>p. getsize data_env p = Some 157286400 \<and> (104857600 :: int) < int 157286400)
       (candidates data_env [''/data''] None None)
     = [''/data/fileB.bin'', ''/data/sub/notes.txt'']"
  using equal_sizes_keep_candidate_order [OF find_large_files_data, of 157286400]
  by (simp add: candidates_data data_env_def)


section \<open>Properties of the report\<close>


lemma display_large_files_empty:
  "display_large_files tab env w [] output_file limit output_format
   = (w\<lparr>logged := logged w @ [Info_NoFilesFound]\<rparr>, Inr [])"
  by (simp add: display_large_files_def)


text \<open>
  Claim C7. When the result set handed to \<open>display_large_files\<close> is empty, the
  function returns the empty list and only logs the notice: nothing is printed, no file
  is written and no directory is made, also when an output path was given.
\<close>

theorem empty_result_only_notice:
  assumes "display_large_files tab env w [] output_file limit output_format = (w', r)"
  shows "r = Inr [] \<and> logged w' = logged w @ [Info_NoFilesFound] \<and> stdout w' = stdout w
       \<and> written w' = written w \<and> made_dirs w' = made_dirs w"
  using assms by (auto simp: display_large_files_empty)

theorem empty_result_only_notice_witness:
  "snd (display_large_files plain_rows data_env world0 [] (Some ''out/r.csv'') (Some 5) ''json'') = Inr []
   \<and> logged (fst (display_large_files plain_rows data_env world0 [] (Some ''out/r.csv'') (Some 5) ''json''))
     = [Info_NoFilesFound]
   \<and> stdout (fst (display_large_files plain_rows data_env world0 [] (Some ''out/r.csv'') (Some 5) ''json'')) = []
   \<and> written (fst (display_large_files plain_rows data_env world0 [] (Some ''out/r.csv'') (Some 5) ''json'')) = []
   \<and> made_dirs (fst (display_large_files plain_rows data_env world0 [] (Some ''out/r.csv'') (Some 5) ''json'')) = []"
  using empty_result_only_notice [OF surjective_pairing, of plain_rows data_env world0
      "Some ''out/r.csv''" "Some 5" "''json''"]
  by (simp add: world0_def)

























lemma open_failure_is_only_logged:
  assumes "large_files \<noteq> []" and "path \<noteq> []" and "\<not> open_ok env path"
    and "ensure_parent_dir env
           (w\<lparr>stdout := stdout w @ render_stdout tab output_format (apply_limit large_files limit)\<rparr>)
           path = Inr w2"
  shows "display_large_files tab env w large_files (Some path) limit output_format
         = (w2\<lparr>logged := logged w2 @ [Error_FailedToSave path,
                   summary (apply_limit large_files limit)]\<rparr>,
            Inr (apply_limit large_files limit))"
  using assms by (simp add: display_large_files_def Let_def)

lemma makedirs_failure_escapes:
  assumes "large_files \<noteq> []" and "path \<noteq> []"
    and "ensure_parent_dir env
           (w\<lparr>stdout := stdout w @ render_stdout tab output_format (apply_limit large_files limit)\<rparr>)
           path = Inl e"
  shows "display_large_files tab env w large_files (Some path) limit output_format
         = (w\<lparr>stdout := stdout w @ render_stdout tab output_format (apply_limit large_files limit)\<rparr>,
            Inl e)"
  using assms by (simp add: display_large_files_def Let_def)

text \<open>
  Claim C8 at a failing input. A failure of \<^verbatim>\<open>open\<close> or of the write is caught and
  logged, and the summary and the deletion follow. The parent directory is made before
  the \<^verbatim>\<open>try\<close>, so when it cannot be made the exception leaves
  \<open>display_large_files\<close>: with the output path \<^verbatim>\<open>/ro/reports/out.csv\<close>, deletion
  asked for and confirmed, the run prints the report and then only logs the unexpected
  error; no summary is logged and no file is removed.
\<close>

theorem makedirs_failure_skips_later_steps:
  "main_body plain_rows data_env
     \<lparr>directories_to_scan = [''/data''], size_threshold_mb = 100, include_arg = None,
      exclude_arg = None, workers_arg = None, output_arg = Some ''/ro/reports/out.csv'',
      limit_arg = None, format_arg = ''csv'', delete_arg = True, yes_arg = True\<rparr>
     [] world0
   = \<lparr>stdout = ''file_path,size_bytes,size_human'' @ NL
         @ ''/data/sub/fileC.MP4,209715200,200.00 MB'' @ NL
         @ ''/data/fileB.bin,157286400,150.00 MB'' @ NL
         @ ''/data/sub/notes.txt,157286400,150.00 MB'' @ NL,
       logged = [Exception_Unexpected],
       written = [], made_dirs = [], remove_calls = [], removed = []\<rparr>"
  by (simp add: main_body_def find_large_files_data display_data_makedirs_fails)

text \<open>
  By contrast, when the directory exists and only the file cannot be opened
  (\<^verbatim>\<open>/ro/out.csv\<close>), the failure is logged, the summary follows and the deletion runs.
\<close>

lemma open_failure_later_steps_run:
  "main_body plain_rows data_env
     \<lparr>directories_to_scan = [''/data''], size_threshold_mb = 100, include_arg = None,
      exclude_arg = None, workers_arg = None, output_arg = Some ''/ro/out.csv'',
      limit_arg = None, format_arg = ''csv'', delete_arg = True, yes_arg = True\<rparr>
     [] world0
   = \<lparr>stdout = ''file_path,size_bytes,size_human'' @ NL
         @ ''/data/sub/fileC.MP4,209715200,200.00 MB'' @ NL
         @ ''/data/fileB.bin,157286400,150.00 MB'' @ NL
         @ ''/data/sub/notes.txt,157286400,150.00 MB'' @ NL,
       logged = [Error_FailedToSave ''/ro/out.csv'', Info_Summary 3 ''500.00'',
                 Error_FailedToDelete ''/data/sub/notes.txt'', Info_DeletionComplete 2 1],
       written = [], made_dirs = [],
       remove_calls = [''/data/sub/fileC.MP4'', ''/data/fileB.bin'', ''/data/sub/notes.txt''],
       removed = [''/data/sub/fileC.MP4'', ''/data/fileB.bin'']\<rparr>"
  by (simp add: main_body_def find_large_files_data display_data_open_fails run_deletion_data)


section \<open>Properties of the deletion\<close>

lemma main_body_go:
  assumes "find_large_files env (directories_to_scan a) (size_threshold_mb a * 1024 * 1024)
             (include_arg a) (exclude_arg a) (workers_arg a) = Inr large_files"
    and "display_large_files tab env w large_files (output_arg a) (limit_arg a) (format_arg a)
           = (w1, Inr used_files)"
    and "delete_arg a" and "used_files \<noteq> []"
    and "yes_arg a \<or> lower (strip answer) = ''y'' \<or> lower (strip answer) = ''yes''"
  shows "main_body tab env a answer w
         = run_deletion env used_files
             (if yes_arg a then w1
              else w1\<lparr>stdout := stdout w1 @ NL @ ''About to delete ''
                     @ str_nat (length used_files) @ '' files totaling ''
                     @ format_size (sum_list (map snd used_files)) @ ''.'' @ NL
                     @ ''Proceed? (y/N): ''\<rparr>)"
  using assms by (auto simp: main_body_def Let_def)






end
